theory Spec2Isabelle
  imports Main "HOL-Library.AList"
begin

section \<open>Data model\<close>

text \<open>
  The program is \<^verbatim>\<open>Ecolink/app.py\<close>. It keeps one undirected graph of the
  library networkx. A networkx graph is two insertion-ordered dictionaries: \<^verbatim>\<open>_node\<close>
  (node name to attribute dictionary) and \<^verbatim>\<open>_adj\<close> (node name to a dictionary
  from neighbour to the attribute dictionary of the edge). A Python dictionary is modelled
  as an association list with distinct keys: assigning to a key that is present replaces
  its value in place, assigning to a new key appends it (\<open>AList.update\<close>), and
  iteration follows the list.

  The attribute dictionary of an edge always holds exactly the three keys \<^verbatim>\<open>Distance\<close>,
  \<^verbatim>\<open>Risk\<close> and \<^verbatim>\<open>Weight\<close> (both callers of \<^verbatim>\<open>add_edge\<close> pass all three), so it is a
  record. Distances and risk levels are Python integers (an integer column of the data
  frame); floating-point columns are outside the model. A node's attribute dictionary
  holds any of \<^verbatim>\<open>latitude\<close>, \<^verbatim>\<open>longitude\<close>, \<^verbatim>\<open>state\<close>; coordinates are only copied,
  never computed with, so their type is the parameter \<open>'c\<close>.
\<close>

record edge_attr =
  Distance :: int
  Risk :: int
  Weight :: int

record 'c node_attr =
  latitude :: "'c option"
  longitude :: "'c option"
  state :: "string option"

record 'c graph =
  node :: "(string \<times> 'c node_attr) list"
  adj :: "(string \<times> (string \<times> edge_attr) list) list"

datatype error =
    RuntimeError string
  | KeyError string
  | NodeNotFound string
  | NetworkXNoPath

text \<open>
  The outcome of \<^verbatim>\<open>pd.read_csv(csv_path)\<close>: one of the two exceptions that
  \<^verbatim>\<open>load_graph\<close> catches, or a data frame. A data frame has one list of column names
  (the header of the file) and its rows in order. Every row that \<^verbatim>\<open>iterrows()\<close> yields
  has a cell for each column of the frame, so \<^verbatim>\<open>row["X"]\<close> raises \<^verbatim>\<open>KeyError\<close> exactly
  when the frame has no column \<^verbatim>\<open>X\<close>, on every row alike. A value that is missing in one
  line of the file is not a missing column: its cell holds the not-a-number value of pandas
  and is read without an exception.

  The record \<open>row\<close> holds the cells of the ten columns that the program reads; the cell of
  a column that the frame lacks is never read. The field \<open>Distance_km\<close> is the column
  \<^verbatim>\<open>Distance (km)\<close>, the field \<open>Risk_Level\<close> the column \<^verbatim>\<open>Risk Level\<close>. Names are
  strings, distances and risk levels integers; the cells of the coordinate columns are of
  the type \<open>'c\<close>, which may have a not-a-number value.
\<close>

record 'c row =
  Source :: string
  Destination :: string
  Distance_km :: int
  Risk_Level :: int
  Source_Latitude :: 'c
  Source_Longitude :: 'c
  Source_State :: string
  Destination_Latitude :: 'c
  Destination_Longitude :: 'c
  Destination_State :: string

datatype 'c read_csv = FileNotFoundError | ParserError | DataFrame "string list" "'c row list"

section \<open>The graph operations of networkx used by the program\<close>

definition empty_graph :: "'c graph" where
  "empty_graph = \<lparr>node = [], adj = []\<rparr>"

definition empty_attr :: "'c node_attr" where
  "empty_attr = \<lparr>latitude = None, longitude = None, state = None\<rparr>"

definition nodes :: "'c graph \<Rightarrow> string list" where
  "nodes G = map fst (node G)"

text \<open>\<^verbatim>\<open>add_edge\<close> first creates each endpoint that is not yet a node, then stores
  the attributes under both directions of the adjacency.\<close>

definition add_node :: "string \<Rightarrow> 'c graph \<Rightarrow> 'c graph" where
  "add_node u G =
     (if u \<in> set (nodes G) then G
      else G\<lparr>adj := AList.update u [] (adj G), node := AList.update u empty_attr (node G)\<rparr>)"

definition set_adj ::
  "string \<Rightarrow> string \<Rightarrow> edge_attr \<Rightarrow> (string \<times> (string \<times> edge_attr) list) list
     \<Rightarrow> (string \<times> (string \<times> edge_attr) list) list" where
  "set_adj u v dd a = AList.map_entry u (AList.update v dd) a"

definition add_edge :: "string \<Rightarrow> string \<Rightarrow> edge_attr \<Rightarrow> 'c graph \<Rightarrow> 'c graph" where
  "add_edge u v attr G =
     (let G2 = add_node v (add_node u G)
      in G2\<lparr>adj := set_adj v u attr (set_adj u v attr (adj G2))\<rparr>)"

text \<open>\<^verbatim>\<open>G[u][v]\<close>: the attributes of the edge between \<open>u\<close> and \<open>v\<close>, when there is one.\<close>

definition edge_data :: "'c graph \<Rightarrow> string \<Rightarrow> string \<Rightarrow> edge_attr option" where
  "edge_data G u v = (case map_of (adj G) u of None \<Rightarrow> None | Some nbrs \<Rightarrow> map_of nbrs v)"

text \<open>\<^verbatim>\<open>G.edges(data=True)\<close>: the adjacency is walked node by node; a neighbour that
  was already walked as a node is skipped, so every edge is reported once.\<close>

fun edges_from ::
  "(string \<times> (string \<times> edge_attr) list) list \<Rightarrow> string list
     \<Rightarrow> (string \<times> string \<times> edge_attr) list" where
  "edges_from [] seen = []"
| "edges_from ((n, nbrs) # rest) seen =
     map (\<lambda>(nbr, dd). (n, nbr, dd)) (filter (\<lambda>(nbr, dd). nbr \<notin> set seen) nbrs)
       @ edges_from rest (n # seen)"

definition edges :: "'c graph \<Rightarrow> (string \<times> string \<times> edge_attr) list" where
  "edges G = edges_from (adj G) []"

section \<open>Loading the graph\<close>

text \<open>\<^verbatim>\<open>d[key]\<close> on a dictionary: \<^verbatim>\<open>KeyError\<close> when the key is absent.\<close>

definition getitem :: "'a option \<Rightarrow> string \<Rightarrow> error + 'a" where
  "getitem cell col = (case cell of None \<Rightarrow> Inl (KeyError col) | Some x \<Rightarrow> Inr x)"

text \<open>\<^verbatim>\<open>row[col]\<close> on a row of a frame with the columns \<open>cols\<close>, whose cell in that
  column is \<open>cell\<close>.\<close>

definition column :: "string list \<Rightarrow> string \<Rightarrow> 'a \<Rightarrow> error + 'a" where
  "column cols col cell = (if col \<in> set cols then Inr cell else Inl (KeyError col))"

text \<open>\<^verbatim>\<open>G.nodes[n][key] = value\<close> for the three keys; \<open>n\<close> is a node, since the
  call of \<^verbatim>\<open>add_edge\<close> on the line before created it.\<close>

definition set_node_attrs :: "string \<Rightarrow> 'c \<Rightarrow> 'c \<Rightarrow> string \<Rightarrow> 'c graph \<Rightarrow> 'c graph" where
  "set_node_attrs n lat lon st G =
     G\<lparr>node := AList.map_entry n
        (\<lambda>a. a\<lparr>latitude := Some lat, longitude := Some lon, state := Some st\<rparr>) (node G)\<rparr>"

text \<open>An exception ends the computation: \<open>bind_err m f\<close> runs \<open>f\<close> on the value
  of \<open>m\<close> unless \<open>m\<close> raised.\<close>

definition bind_err :: "error + 'a \<Rightarrow> ('a \<Rightarrow> error + 'b) \<Rightarrow> error + 'b" where
  "bind_err m f = (case m of Inl e \<Rightarrow> Inl e | Inr x \<Rightarrow> f x)"

text \<open>The body of the loop of \<^verbatim>\<open>load_graph\<close> for one row, the reads in the order of
  the source.\<close>

definition add_row :: "string list \<Rightarrow> 'c graph \<Rightarrow> 'c row \<Rightarrow> error + 'c graph" where
  "add_row cols G r =
     bind_err (column cols ''Source'' (Source r)) (\<lambda>src.
     bind_err (column cols ''Destination'' (Destination r)) (\<lambda>dst.
     bind_err (column cols ''Distance (km)'' (Distance_km r)) (\<lambda>dist.
     bind_err (column cols ''Risk Level'' (Risk_Level r)) (\<lambda>risk.
     let weight = dist + risk * 50;
         G1 = add_edge src dst \<lparr>Distance = dist, Risk = risk, Weight = weight\<rparr> G
     in
     bind_err (column cols ''Source_Latitude'' (Source_Latitude r)) (\<lambda>slat.
     bind_err (column cols ''Source_Longitude'' (Source_Longitude r)) (\<lambda>slon.
     bind_err (column cols ''Source_State'' (Source_State r)) (\<lambda>sst.
     let G2 = set_node_attrs src slat slon sst G1 in
     bind_err (column cols ''Destination_Latitude'' (Destination_Latitude r)) (\<lambda>dlat.
     bind_err (column cols ''Destination_Longitude'' (Destination_Longitude r)) (\<lambda>dlon.
     bind_err (column cols ''Destination_State'' (Destination_State r)) (\<lambda>dst_st.
     Inr (set_node_attrs dst dlat dlon dst_st G2)))))))))))"

fun add_rows :: "string list \<Rightarrow> 'c graph \<Rightarrow> 'c row list \<Rightarrow> error + 'c graph" where
  "add_rows cols G [] = Inr G"
| "add_rows cols G (r # rs) =
     (case add_row cols G r of Inl e \<Rightarrow> Inl e | Inr G' \<Rightarrow> add_rows cols G' rs)"

text \<open>\<^verbatim>\<open>load_graph(csv_path)\<close>, given what \<^verbatim>\<open>pd.read_csv(csv_path)\<close> did.\<close>

definition load_graph :: "string \<Rightarrow> 'c read_csv \<Rightarrow> error + 'c graph" where
  "load_graph csv_path df =
     (case df of
        FileNotFoundError \<Rightarrow> Inl (RuntimeError (''File not found: '' @ csv_path))
      | ParserError \<Rightarrow> Inl (RuntimeError (''Error parsing CSV: '' @ csv_path))
      | DataFrame cols rows \<Rightarrow> add_rows cols empty_graph rows)"

section \<open>Kruskal's algorithm\<close>

text \<open>
  The dictionaries \<^verbatim>\<open>parent\<close> and \<^verbatim>\<open>rank\<close> are only read and written by key, so they
  are maps. \<^verbatim>\<open>find\<close> compresses the path while it returns, so it returns the new
  \<^verbatim>\<open>parent\<close> with the root. It recurses along \<^verbatim>\<open>parent\<close> and need not return:
  \<open>None\<close> is "no result", \<open>Some (Inl e)\<close> an exception, \<open>Some (Inr x)\<close> the value \<open>x\<close>.
\<close>

partial_function (option) find_uf ::
  "(string \<rightharpoonup> string) \<Rightarrow> string \<Rightarrow> (error + (string \<rightharpoonup> string) \<times> string) option" where
  "find_uf parent u =
     (case parent u of
        None \<Rightarrow> Some (Inl (KeyError u))
      | Some p \<Rightarrow>
          if p \<noteq> u then
            Option.bind (find_uf parent p) (\<lambda>res.
              case res of
                Inl e \<Rightarrow> Some (Inl e)
              | Inr (parent1, r) \<Rightarrow> Some (Inr (parent1(u \<mapsto> r), r)))
          else Some (Inr (parent, p)))"

declare find_uf.simps [code]

text \<open>Sequencing of computations that may raise or not return.\<close>

definition bind_res ::
  "(error + 'a) option \<Rightarrow> ('a \<Rightarrow> (error + 'b) option) \<Rightarrow> (error + 'b) option" where
  "bind_res m f = (case m of None \<Rightarrow> None | Some r \<Rightarrow> (case r of Inl e \<Rightarrow> Some (Inl e) | Inr x \<Rightarrow> f x))"

definition lookup :: "(string \<rightharpoonup> 'a) \<Rightarrow> string \<Rightarrow> (error + 'a) option" where
  "lookup d k = (case d k of None \<Rightarrow> Some (Inl (KeyError k)) | Some x \<Rightarrow> Some (Inr x))"

definition union_uf ::
  "(string \<rightharpoonup> string) \<Rightarrow> (string \<rightharpoonup> nat) \<Rightarrow> string \<Rightarrow> string
     \<Rightarrow> (error + (string \<rightharpoonup> string) \<times> (string \<rightharpoonup> nat) \<times> bool) option" where
  "union_uf parent rank u v =
     bind_res (find_uf parent u) (\<lambda>(parent1, ru).
     bind_res (find_uf parent1 v) (\<lambda>(parent2, rv).
       if ru = rv then Some (Inr (parent2, rank, False))
       else
         bind_res (lookup rank ru) (\<lambda>a.
         bind_res (lookup rank rv) (\<lambda>b.
           if a < b then Some (Inr (parent2(ru \<mapsto> rv), rank, True))
           else Some (Inr (parent2(rv \<mapsto> ru),
                           (if a = b then rank(ru \<mapsto> a + 1) else rank),
                           True))))))"

fun kruskal_loop ::
  "(string \<rightharpoonup> string) \<Rightarrow> (string \<rightharpoonup> nat) \<Rightarrow> 'c graph
     \<Rightarrow> (string \<times> string \<times> edge_attr) list \<Rightarrow> (error + 'c graph) option" where
  "kruskal_loop parent rank T [] = Some (Inr T)"
| "kruskal_loop parent rank T ((u, v, attr) # es) =
     bind_res (union_uf parent rank u v) (\<lambda>(parent', rank', added).
       kruskal_loop parent' rank' (if added then add_edge u v attr T else T) es)"

text \<open>\<^verbatim>\<open>sorted\<close> is stable, as \<open>sort_key\<close> is.\<close>

definition sorted_edges :: "'c graph \<Rightarrow> (string \<times> string \<times> edge_attr) list" where
  "sorted_edges G = sort_key (\<lambda>(u, v, attr). Weight attr) (edges G)"

definition kruskal_mst :: "'c graph \<Rightarrow> (error + 'c graph) option" where
  "kruskal_mst G =
     kruskal_loop (map_of (map (\<lambda>n. (n, n)) (nodes G))) (map_of (map (\<lambda>n. (n, 0)) (nodes G)))
       empty_graph (sorted_edges G)"

section \<open>Resolving a name\<close>

text \<open>
  \<^verbatim>\<open>str.lower\<close> belongs to Python and follows the case mappings of Unicode; it is the
  parameter \<open>lower\<close>, a function from strings to strings, and every statement below
  holds for any such function. Two strings differ only in letter case when \<open>lower\<close>
  gives the same string for both, which is the comparison that the program makes.

  The first loop of \<^verbatim>\<open>get_real_node_name\<close> returns the first node, in the order of
  \<^verbatim>\<open>G.nodes\<close>, whose lower-cased name is the lower-cased input.
\<close>

definition exact_match :: "(string \<Rightarrow> string) \<Rightarrow> 'c graph \<Rightarrow> string \<Rightarrow> string option" where
  "exact_match lower G user_input = List.find (\<lambda>n. lower n = lower user_input) (nodes G)"

text \<open>
  \<^verbatim>\<open>difflib.get_close_matches(word, possibilities, n=1, cutoff=0.8)\<close> belongs to
  Python's library and computes with floating-point ratios; it is the parameter
  \<open>close\<close>, a function from the word and the possibilities to the list of matches, and
  every statement below holds for any such function.
\<close>

definition get_real_node_name ::
  "(string \<Rightarrow> string) \<Rightarrow> (string \<Rightarrow> string list \<Rightarrow> string list) \<Rightarrow> 'c graph \<Rightarrow> string
     \<Rightarrow> string option" where
  "get_real_node_name lower close G user_input =
     (case exact_match lower G user_input of
        Some n \<Rightarrow> Some n
      | None \<Rightarrow>
         (case close (lower user_input) (map lower (nodes G)) of
            [] \<Rightarrow> None
          | m # ms \<Rightarrow> List.find (\<lambda>n. lower n = m) (nodes G)))"

section \<open>The corridor query\<close>

text \<open>
  \<^verbatim>\<open>nx.shortest_path(mst, src, dst, weight='Weight')\<close> belongs to networkx (a
  bidirectional Dijkstra search). It is modelled by its contract on the graphs the program
  gives it, which are forests: \<^verbatim>\<open>NodeNotFound\<close> when an end is not a node, the
  one-node path when the ends are equal, and otherwise the path without repeated nodes from
  the source to the target, which in a forest is the only one, or \<^verbatim>\<open>NetworkXNoPath\<close>.
  The search below walks the neighbours in adjacency order and never returns to a visited
  node; the number of nodes bounds its depth. Negative weights are outside the contract of
  Dijkstra's algorithm and are not modelled.
\<close>

definition neighbors :: "'c graph \<Rightarrow> string \<Rightarrow> string list" where
  "neighbors G u = (case map_of (adj G) u of None \<Rightarrow> [] | Some nbrs \<Rightarrow> map fst nbrs)"

fun first_some :: "('a \<Rightarrow> 'b option) \<Rightarrow> 'a list \<Rightarrow> 'b option" where
  "first_some f [] = None"
| "first_some f (x # xs) = (case f x of Some y \<Rightarrow> Some y | None \<Rightarrow> first_some f xs)"

fun simple_path :: "nat \<Rightarrow> 'c graph \<Rightarrow> string list \<Rightarrow> string \<Rightarrow> string \<Rightarrow> string list option" where
  "simple_path 0 G visited u t = (if u = t then Some [u] else None)"
| "simple_path (Suc k) G visited u t =
     (if u = t then Some [u]
      else map_option (\<lambda>p. u # p)
             (first_some (\<lambda>n. simple_path k G (u # visited) n t)
                (filter (\<lambda>n. n \<notin> set (u # visited)) (neighbors G u))))"

definition shortest_path :: "'c graph \<Rightarrow> string \<Rightarrow> string \<Rightarrow> error + string list" where
  "shortest_path G source target =
     (if source \<notin> set (nodes G) then Inl (NodeNotFound source)
      else if target \<notin> set (nodes G) then Inl (NodeNotFound target)
      else if source = target then Inr [source]
      else (case simple_path (length (nodes G)) G [] source target of
              None \<Rightarrow> Inl NetworkXNoPath
            | Some p \<Rightarrow> Inr p))"

text \<open>The JSON bodies of the responses. \<open>node_map\<close> is the key \<^verbatim>\<open>nodes\<close>: node name
  to latitude, longitude and state, in insertion order.\<close>

record step =
  source :: string
  destination :: string
  distance :: int
  risk :: int
  source_state :: string
  destination_state :: string
  source_full :: string
  destination_full :: string

record 'c corridor =
  path :: "step list"
  node_map :: "(string \<times> 'c \<times> 'c \<times> string) list"
  total_distance :: int
  total_risk :: int

datatype 'c body = Failure string | Success "'c corridor"

text \<open>\<^verbatim>\<open>G[u][v]\<close> and \<^verbatim>\<open>G.nodes[n]\<close> raise \<^verbatim>\<open>KeyError\<close> on a missing key.\<close>

definition edge_lookup :: "'c graph \<Rightarrow> string \<Rightarrow> string \<Rightarrow> error + edge_attr" where
  "edge_lookup G u v =
     (case map_of (adj G) u of
        None \<Rightarrow> Inl (KeyError u)
      | Some nbrs \<Rightarrow> getitem (map_of nbrs v) v)"

definition node_lookup :: "'c graph \<Rightarrow> string \<Rightarrow> error + 'c node_attr" where
  "node_lookup G n = getitem (map_of (node G) n) n"

definition state_or_unknown :: "'c node_attr \<Rightarrow> string" where
  "state_or_unknown a = (case state a of None \<Rightarrow> ''Unknown'' | Some st \<Rightarrow> st)"

definition make_step :: "'c graph \<Rightarrow> string \<Rightarrow> string \<Rightarrow> error + step" where
  "make_step G u v =
     bind_err (edge_lookup G u v) (\<lambda>e.
     bind_err (node_lookup G u) (\<lambda>au.
     bind_err (node_lookup G v) (\<lambda>av.
       Inr \<lparr>source = u, destination = v, distance = Distance e, risk = Risk e,
            source_state = state_or_unknown au,
            destination_state = state_or_unknown av,
            source_full = u @ '' ('' @ state_or_unknown au @ '')'',
            destination_full = v @ '' ('' @ state_or_unknown av @ '')''\<rparr>)))"

fun make_steps :: "'c graph \<Rightarrow> (string \<times> string) list \<Rightarrow> error + step list" where
  "make_steps G [] = Inr []"
| "make_steps G ((u, v) # ps) =
     bind_err (make_step G u v) (\<lambda>s.
     bind_err (make_steps G ps) (\<lambda>ss. Inr (s # ss)))"

definition node_info :: "'c graph \<Rightarrow> string \<Rightarrow> error + 'c \<times> 'c \<times> string" where
  "node_info G n =
     bind_err (node_lookup G n) (\<lambda>a.
     bind_err (getitem (latitude a) ''latitude'') (\<lambda>lat.
     bind_err (getitem (longitude a) ''longitude'') (\<lambda>lon.
       Inr (lat, lon, state_or_unknown a))))"

fun make_nodes ::
  "'c graph \<Rightarrow> (string \<times> 'c \<times> 'c \<times> string) list \<Rightarrow> string list
     \<Rightarrow> error + (string \<times> 'c \<times> 'c \<times> string) list" where
  "make_nodes G acc [] = Inr acc"
| "make_nodes G acc (n # ns) =
     bind_err (node_info G n) (\<lambda>i. make_nodes G (AList.update n i acc) ns)"

text \<open>The part of \<^verbatim>\<open>get_corridor\<close> after the path is found.\<close>

definition assemble :: "'c graph \<Rightarrow> string list \<Rightarrow> error + nat \<times> 'c body" where
  "assemble G node_list =
     bind_err (make_steps G (zip node_list (tl node_list))) (\<lambda>edges.
     bind_err (make_nodes G [] node_list) (\<lambda>ns.
       Inr (200, Success \<lparr>path = edges, node_map = ns,
                          total_distance = sum_list (map distance edges),
                          total_risk = sum_list (map risk edges)\<rparr>)))"

text \<open>Python's \<^verbatim>\<open>not x\<close> for an optional string: true for \<^verbatim>\<open>None\<close> and for the
  empty string.\<close>

definition py_not :: "string option \<Rightarrow> bool" where
  "py_not x = (x = None \<or> x = Some [])"

definition find_corridor :: "'c graph \<Rightarrow> string \<Rightarrow> string \<Rightarrow> (error + nat \<times> 'c body) option" where
  "find_corridor G src dst =
     bind_res (kruskal_mst G) (\<lambda>mst.
       if src \<notin> set (nodes mst) \<or> dst \<notin> set (nodes mst)
       then Some (Inr (404, Failure ''No path found''))
       else (case shortest_path mst src dst of
               Inl e \<Rightarrow> (if e = NetworkXNoPath then Some (Inr (404, Failure ''No path found''))
                         else Some (Inl e))
             | Inr node_list \<Rightarrow> Some (assemble G node_list)))"

text \<open>\<^verbatim>\<open>get_corridor\<close>, given the graph and the two query parameters (\<open>None\<close> when
  the parameter is absent). The result is the status and the body, or an exception that the
  handler does not catch.\<close>

definition get_corridor ::
  "(string \<Rightarrow> string) \<Rightarrow> (string \<Rightarrow> string list \<Rightarrow> string list) \<Rightarrow> 'c graph
     \<Rightarrow> string option \<Rightarrow> string option \<Rightarrow> (error + nat \<times> 'c body) option" where
  "get_corridor lower close G src_input dst_input =
     (if py_not src_input \<or> py_not dst_input
      then Some (Inr (400, Failure ''Missing source or destination''))
      else
        (let src = get_real_node_name lower close G (the src_input);
             dst = get_real_node_name lower close G (the dst_input)
         in if py_not src \<or> py_not dst
            then Some (Inr (404, Failure ''Sanctuary not found. Check spelling.''))
            else find_corridor G (the src) (the dst)))"

section \<open>Vocabulary of the properties and example data\<close>

text \<open>The ten columns that \<^verbatim>\<open>load_graph\<close> reads from every row, in the order in which
  it reads them.\<close>

definition required_columns :: "string list" where
  "required_columns =
     [''Source'', ''Destination'', ''Distance (km)'', ''Risk Level'',
      ''Source_Latitude'', ''Source_Longitude'', ''Source_State'',
      ''Destination_Latitude'', ''Destination_Longitude'', ''Destination_State'']"

text \<open>A row with fixed coordinates and state, and a matcher that finds no close match,
  for the examples.\<close>

definition mk_row :: "string \<Rightarrow> string \<Rightarrow> int \<Rightarrow> int \<Rightarrow> int row" where
  "mk_row s d km rk =
     \<lparr>Source = s, Destination = d, Distance_km = km, Risk_Level = rk,
      Source_Latitude = 0, Source_Longitude = 0, Source_State = ''Goa'',
      Destination_Latitude = 0, Destination_Longitude = 0,
      Destination_State = ''Goa''\<rparr>"

definition no_close :: "string \<Rightarrow> string list \<Rightarrow> string list" where
  "no_close w ps = []"

text \<open>\<^verbatim>\<open>str.lower\<close> on ASCII text, for the examples, whose strings are ASCII: each of
  the letters A to Z moves to its lower-case letter, every other character stays.\<close>

definition ascii_lower_char :: "char \<Rightarrow> char" where
  "ascii_lower_char c =
     (case map_of (zip ''ABCDEFGHIJKLMNOPQRSTUVWXYZ'' ''abcdefghijklmnopqrstuvwxyz'') c of
        None \<Rightarrow> c
      | Some l \<Rightarrow> l)"

definition ascii_lower :: "string \<Rightarrow> string" where
  "ascii_lower s = map ascii_lower_char s"

text \<open>The graph of the single row \<open>Abc\<close>, \<open>abc\<close>: two nodes whose names differ only
  in case.\<close>

definition case_graph :: "int graph" where
  "case_graph =
     \<lparr>node = [(''Abc'', \<lparr>latitude = Some 0, longitude = Some 0, state = Some ''Goa''\<rparr>),
              (''abc'', \<lparr>latitude = Some 0, longitude = Some 0, state = Some ''Goa''\<rparr>)],
      adj = [(''Abc'', [(''abc'', \<lparr>Distance = 7, Risk = 1, Weight = 57\<rparr>)]),
             (''abc'', [(''Abc'', \<lparr>Distance = 7, Risk = 1, Weight = 57\<rparr>)])]\<rparr>"

text \<open>The dataset of the three rows \<open>A\<close>, \<open>B\<close> (distance 10, risk 1); \<open>B\<close>, \<open>C\<close>
  (distance 10, risk 1); \<open>A\<close>, \<open>C\<close> (distance 5, risk 4), whatever the other cells of
  the rows hold; the graph that \<^verbatim>\<open>load_graph\<close> builds from it and the graph that
  \<^verbatim>\<open>kruskal_mst\<close> returns for it (\<open>load_abc\<close>, \<open>kruskal_abc\<close> below).\<close>

definition abc_rows :: "'c row \<Rightarrow> 'c row \<Rightarrow> 'c row \<Rightarrow> 'c row list" where
  "abc_rows r1 r2 r3 =
     [r1\<lparr>Source := ''A'', Destination := ''B'', Distance_km := 10, Risk_Level := 1\<rparr>,
      r2\<lparr>Source := ''B'', Destination := ''C'', Distance_km := 10, Risk_Level := 1\<rparr>,
      r3\<lparr>Source := ''A'', Destination := ''C'', Distance_km := 5, Risk_Level := 4\<rparr>]"

definition abc_graph :: "'c row \<Rightarrow> 'c row \<Rightarrow> 'c row \<Rightarrow> 'c graph" where
  "abc_graph r1 r2 r3 =
     \<lparr>node = [(''A'', \<lparr>latitude = Some (Source_Latitude r3), longitude = Some (Source_Longitude r3),
                      state = Some (Source_State r3)\<rparr>),
              (''B'', \<lparr>latitude = Some (Source_Latitude r2), longitude = Some (Source_Longitude r2),
                      state = Some (Source_State r2)\<rparr>),
              (''C'', \<lparr>latitude = Some (Destination_Latitude r3),
                      longitude = Some (Destination_Longitude r3),
                      state = Some (Destination_State r3)\<rparr>)],
      adj = [(''A'', [(''B'', \<lparr>Distance = 10, Risk = 1, Weight = 60\<rparr>),
                     (''C'', \<lparr>Distance = 5, Risk = 4, Weight = 205\<rparr>)]),
             (''B'', [(''A'', \<lparr>Distance = 10, Risk = 1, Weight = 60\<rparr>),
                     (''C'', \<lparr>Distance = 10, Risk = 1, Weight = 60\<rparr>)]),
             (''C'', [(''B'', \<lparr>Distance = 10, Risk = 1, Weight = 60\<rparr>),
                     (''A'', \<lparr>Distance = 5, Risk = 4, Weight = 205\<rparr>)])]\<rparr>"

definition abc_mst :: "'c graph" where
  "abc_mst =
     \<lparr>node = [(''A'', empty_attr), (''B'', empty_attr), (''C'', empty_attr)],
      adj = [(''A'', [(''B'', \<lparr>Distance = 10, Risk = 1, Weight = 60\<rparr>)]),
             (''B'', [(''A'', \<lparr>Distance = 10, Risk = 1, Weight = 60\<rparr>),
                     (''C'', \<lparr>Distance = 10, Risk = 1, Weight = 60\<rparr>)]),
             (''C'', [(''B'', \<lparr>Distance = 10, Risk = 1, Weight = 60\<rparr>)])]\<rparr>"

text \<open>
  The invariant of the graphs that the program builds: the two dictionaries have the same
  keys in the same order, no key is repeated, and the adjacency is symmetric.
\<close>

definition wf_graph :: "'c graph \<Rightarrow> bool" where
  "wf_graph G \<longleftrightarrow>
     distinct (nodes G) \<and> map fst (adj G) = nodes G \<and>
     (\<forall>nbrs \<in> snd ` set (adj G). distinct (map fst nbrs)) \<and>
     (\<forall>x y. edge_data G x y = edge_data G y x)"

text \<open>The set of the two ends of an edge; the keys of an association list that come
  before a key; the attributes that the loop of \<^verbatim>\<open>load_graph\<close> gives to the edge of a
  row; a row joins the nodes \<open>x\<close> and \<open>y\<close>, in either direction.\<close>

definition upair :: "string \<times> string \<times> edge_attr \<Rightarrow> string set" where
  "upair e = {fst e, fst (snd e)}"

primrec before :: "('k \<times> 'v) list \<Rightarrow> 'k \<Rightarrow> 'k set" where
  "before [] x = {}"
| "before (p # ps) x = (if fst p = x then {} else insert (fst p) (before ps x))"

definition row_edge_attr :: "'c row \<Rightarrow> edge_attr" where
  "row_edge_attr r =
     \<lparr>Distance = Distance_km r, Risk = Risk_Level r, Weight = Distance_km r + Risk_Level r * 50\<rparr>"

definition same_pair :: "'c row \<Rightarrow> string \<Rightarrow> string \<Rightarrow> bool" where
  "same_pair r x y \<longleftrightarrow> (x = Source r \<and> y = Destination r) \<or> (x = Destination r \<and> y = Source r)"

(*MARK:DEFS*)

section \<open>Auxiliary facts\<close>

lemmas graph_defs = add_edge_def add_node_def nodes_def empty_graph_def set_adj_def
  set_node_attrs_def empty_attr_def Let_def

lemma add_row_unfold:
  "add_row cols G r =
    (if ''Source'' \<notin> set cols then Inl (KeyError ''Source'')
     else if ''Destination'' \<notin> set cols then Inl (KeyError ''Destination'')
     else if ''Distance (km)'' \<notin> set cols then Inl (KeyError ''Distance (km)'')
     else if ''Risk Level'' \<notin> set cols then Inl (KeyError ''Risk Level'')
     else if ''Source_Latitude'' \<notin> set cols then Inl (KeyError ''Source_Latitude'')
     else if ''Source_Longitude'' \<notin> set cols then Inl (KeyError ''Source_Longitude'')
     else if ''Source_State'' \<notin> set cols then Inl (KeyError ''Source_State'')
     else if ''Destination_Latitude'' \<notin> set cols then Inl (KeyError ''Destination_Latitude'')
     else if ''Destination_Longitude'' \<notin> set cols then Inl (KeyError ''Destination_Longitude'')
     else if ''Destination_State'' \<notin> set cols then Inl (KeyError ''Destination_State'')
     else Inr (set_node_attrs (Destination r) (Destination_Latitude r)
                 (Destination_Longitude r) (Destination_State r)
              (set_node_attrs (Source r) (Source_Latitude r)
                 (Source_Longitude r) (Source_State r)
              (add_edge (Source r) (Destination r)
                 \<lparr>Distance = Distance_km r, Risk = Risk_Level r,
                  Weight = Distance_km r + Risk_Level r * 50\<rparr> G))))"
proof -
  have g: "\<And>x c f. bind_err (column cols c x) f = (if c \<notin> set cols then Inl (KeyError c) else f x)"
    by (simp add: bind_err_def column_def)
  show ?thesis unfolding add_row_def g Let_def by (rule refl)
qed

lemma add_row_ok:
  assumes "set required_columns \<subseteq> set cols"
  shows "add_row cols G r =
     Inr (set_node_attrs (Destination r) (Destination_Latitude r)
                 (Destination_Longitude r) (Destination_State r)
              (set_node_attrs (Source r) (Source_Latitude r)
                 (Source_Longitude r) (Source_State r)
              (add_edge (Source r) (Destination r)
                 \<lparr>Distance = Distance_km r, Risk = Risk_Level r,
                  Weight = Distance_km r + Risk_Level r * 50\<rparr> G)))"
  using assms unfolding add_row_unfold by (simp add: required_columns_def)



lemma add_rows_ok:
  "set required_columns \<subseteq> set cols \<Longrightarrow> \<exists>G'. add_rows cols G rows = Inr G'"
  by (induction rows arbitrary: G) (simp_all add: add_row_ok)

text \<open>A frame without rows loads as the empty graph whatever its header, and a frame
  whose header has the ten columns loads whatever its cells hold.\<close>

lemma load_graph_no_rows: "load_graph csv_path (DataFrame cols []) = Inr empty_graph"
  by (simp add: load_graph_def)

lemma load_graph_all_columns:
  "set required_columns \<subseteq> set cols \<Longrightarrow> \<exists>G. load_graph csv_path (DataFrame cols rows) = Inr G"
  by (simp add: load_graph_def add_rows_ok)

lemma load_case_graph:
  "load_graph p (DataFrame required_columns [mk_row ''Abc'' ''abc'' 7 1]) = Inr case_graph"
  by (simp add: load_graph_def add_row_ok mk_row_def case_graph_def graph_defs)

lemma ascii_lower_simps:
  "ascii_lower [] = []" "ascii_lower (c # cs) = ascii_lower_char c # ascii_lower cs"
  by (simp_all add: ascii_lower_def)

lemma find_first:
  assumes "\<forall>y \<in> set pre. \<not> P y" and "P x"
  shows "List.find P (pre @ x # post) = Some x"
  using assms by (induction pre) simp_all

lemmas resolve_defs = case_graph_def nodes_def get_real_node_name_def exact_match_def
  ascii_lower_simps ascii_lower_char_def no_close_def

lemma load_abc:
  "load_graph p (DataFrame required_columns (abc_rows r1 r2 r3)) = Inr (abc_graph r1 r2 r3)"
  by (simp add: load_graph_def add_row_ok abc_rows_def abc_graph_def graph_defs)

lemma nodes_abc: "nodes (abc_graph r1 r2 r3) = [''A'', ''B'', ''C'']"
  by (simp add: abc_graph_def nodes_def)

lemma edges_abc:
  "edges (abc_graph r1 r2 r3) =
     [(''A'', ''B'', \<lparr>Distance = 10, Risk = 1, Weight = 60\<rparr>),
      (''A'', ''C'', \<lparr>Distance = 5, Risk = 4, Weight = 205\<rparr>),
      (''B'', ''C'', \<lparr>Distance = 10, Risk = 1, Weight = 60\<rparr>)]"
  by (simp add: abc_graph_def edges_def)

lemma sorted_edges_abc:
  "sorted_edges (abc_graph r1 r2 r3) =
     [(''A'', ''B'', \<lparr>Distance = 10, Risk = 1, Weight = 60\<rparr>),
      (''B'', ''C'', \<lparr>Distance = 10, Risk = 1, Weight = 60\<rparr>),
      (''A'', ''C'', \<lparr>Distance = 5, Risk = 4, Weight = 205\<rparr>)]"
  by (simp add: sorted_edges_def edges_abc)

lemma kruskal_abc: "kruskal_mst (abc_graph r1 r2 r3) = Some (Inr abc_mst)"
  apply (simp add: kruskal_mst_def sorted_edges_abc nodes_abc)
  apply (simp add: union_uf_def bind_res_def find_uf.simps lookup_def)
  apply (simp add: abc_mst_def graph_defs)
  done

lemma nodes_mst: "nodes (abc_mst :: 'c graph) = [''A'', ''B'', ''C'']"
  by (simp add: abc_mst_def nodes_def)

lemma edges_mst:
  "edges (abc_mst :: 'c graph) =
     [(''A'', ''B'', \<lparr>Distance = 10, Risk = 1, Weight = 60\<rparr>),
      (''B'', ''C'', \<lparr>Distance = 10, Risk = 1, Weight = 60\<rparr>)]"
  by (simp add: abc_mst_def edges_def)

lemma path_abc: "shortest_path (abc_mst :: 'c graph) ''A'' ''C'' = Inr [''A'', ''B'', ''C'']"
  by (simp add: shortest_path_def nodes_mst) (simp add: abc_mst_def neighbors_def numeral_3_eq_3)

lemma resolve_abc:
  "get_real_node_name ascii_lower close (abc_graph r1 r2 r3) ''a'' = Some ''A''"
  "get_real_node_name ascii_lower close (abc_graph r1 r2 r3) ''c'' = Some ''C''"
  by (simp_all add: get_real_node_name_def exact_match_def nodes_abc ascii_lower_simps
        ascii_lower_char_def)

lemma steps_abc:
  "make_steps (abc_graph r1 r2 r3) [(''A'', ''B''), (''B'', ''C'')] =
     Inr [\<lparr>source = ''A'', destination = ''B'', distance = 10, risk = 1,
           source_state = Source_State r3, destination_state = Source_State r2,
           source_full = ''A ('' @ Source_State r3 @ '')'',
           destination_full = ''B ('' @ Source_State r2 @ '')''\<rparr>,
          \<lparr>source = ''B'', destination = ''C'', distance = 10, risk = 1,
           source_state = Source_State r2, destination_state = Destination_State r3,
           source_full = ''B ('' @ Source_State r2 @ '')'',
           destination_full = ''C ('' @ Destination_State r3 @ '')''\<rparr>]"
  by (simp add: make_step_def edge_lookup_def node_lookup_def getitem_def bind_err_def
        state_or_unknown_def abc_graph_def)

lemma nodes_info_abc:
  "make_nodes (abc_graph r1 r2 r3) [] [''A'', ''B'', ''C''] =
     Inr [(''A'', Source_Latitude r3, Source_Longitude r3, Source_State r3),
          (''B'', Source_Latitude r2, Source_Longitude r2, Source_State r2),
          (''C'', Destination_Latitude r3, Destination_Longitude r3, Destination_State r3)]"
  by (simp add: node_info_def node_lookup_def getitem_def bind_err_def
        state_or_unknown_def abc_graph_def)

lemma keys_map_entry: "map fst (AList.map_entry k f xs) = map fst xs"
  by (induction xs) auto

lemma set_update_cases:
  "(k', v') \<in> set (AList.update k v xs) \<Longrightarrow> (k' = k \<and> v' = v) \<or> (k', v') \<in> set xs"
  by (induction xs) (auto split: if_splits)

lemma set_map_entry_cases:
  "(k', v') \<in> set (AList.map_entry k f xs) \<Longrightarrow>
     (k', v') \<in> set xs \<or> (k' = k \<and> (\<exists>v0. (k, v0) \<in> set xs \<and> v' = f v0))"
  by (induction xs) (auto split: if_splits)

lemma nodes_add_node:
  "nodes (add_node u G) = (if u \<in> set (nodes G) then nodes G else nodes G @ [u])"
  by (simp add: add_node_def nodes_def update_keys)

lemma adj_keys_add_node:
  "map fst (adj G) = nodes G \<Longrightarrow> map fst (adj (add_node u G)) = nodes (add_node u G)"
  by (simp add: add_node_def nodes_def update_keys)

lemma edge_data_add_node:
  assumes "map fst (adj G) = nodes G"
  shows "edge_data (add_node u G) x y = edge_data G x y"
proof (cases "u \<in> set (nodes G)")
  case True
  then show ?thesis by (simp add: add_node_def)
next
  case False
  with assms have "u \<notin> fst ` set (adj G)" by (metis list.set_map)
  then have "map_of (adj G) u = None" by (simp add: map_of_eq_None_iff)
  with False show ?thesis
    by (simp add: add_node_def edge_data_def update_conv')
qed

lemma wf_add_node: "wf_graph G \<Longrightarrow> wf_graph (add_node u G)"
  unfolding wf_graph_def
  apply (intro conjI)
     apply (auto simp: nodes_add_node)[1]
    apply (simp add: adj_keys_add_node)
   apply (auto simp: add_node_def dest!: set_update_cases)[1]
  apply (simp add: edge_data_add_node)
  done

lemma nodes_add_edge:
  "nodes (add_edge u v a G) = nodes (add_node v (add_node u G))"
  by (simp add: add_edge_def Let_def nodes_def)

lemma set_nodes_add_edge:
  "set (nodes (add_edge u v a G)) = insert u (insert v (set (nodes G)))"
  by (auto simp: nodes_add_edge nodes_add_node)

lemma adj_keys_add_edge:
  "map fst (adj G) = nodes G \<Longrightarrow> map fst (adj (add_edge u v a G)) = nodes (add_edge u v a G)"
  by (simp add: add_edge_def Let_def set_adj_def keys_map_entry adj_keys_add_node nodes_def)

lemma edge_data_set_adj:
  assumes "u \<in> fst ` set A" "v \<in> fst ` set A"
  shows "(case map_of (set_adj v u a (set_adj u v a A)) x of None \<Rightarrow> None | Some nbrs \<Rightarrow> map_of nbrs y)
       = (if (x = u \<and> y = v) \<or> (x = v \<and> y = u) then Some a
          else (case map_of A x of None \<Rightarrow> None | Some nbrs \<Rightarrow> map_of nbrs y))"
proof -
  from assms obtain nu nv where "map_of A u = Some nu" "map_of A v = Some nv"
    by (metis map_of_eq_None_iff not_Some_eq)
  then show ?thesis
    by (auto simp: set_adj_def map_of_map_entry update_conv' split: option.splits)
qed

lemma edge_data_add_edge:
  assumes "wf_graph G"
  shows "edge_data (add_edge u v a G) x y =
           (if (x = u \<and> y = v) \<or> (x = v \<and> y = u) then Some a else edge_data G x y)"
proof -
  let ?G2 = "add_node v (add_node u G)"
  have wf2: "wf_graph ?G2" using assms by (simp add: wf_add_node)
  then have k: "map fst (adj ?G2) = nodes ?G2" by (simp add: wf_graph_def)
  have "u \<in> set (nodes ?G2)" "v \<in> set (nodes ?G2)" by (auto simp: nodes_add_node)
  with k have in_keys: "u \<in> fst ` set (adj ?G2)" "v \<in> fst ` set (adj ?G2)"
    by (metis list.set_map)+
  have "edge_data (add_edge u v a G) x y =
        (if (x = u \<and> y = v) \<or> (x = v \<and> y = u) then Some a else edge_data ?G2 x y)"
    unfolding edge_data_def add_edge_def Let_def
    using edge_data_set_adj[OF in_keys, where a=a and x=x and y=y] by simp
  moreover have "edge_data ?G2 x y = edge_data G x y"
    using assms by (simp add: edge_data_add_node adj_keys_add_node wf_graph_def)
  ultimately show ?thesis by simp
qed

lemma wf_add_edge:
  assumes "wf_graph G"
  shows "wf_graph (add_edge u v a G)"
proof -
  let ?G2 = "add_node v (add_node u G)"
  have wf2: "wf_graph ?G2" using assms by (simp add: wf_add_node)
  have d: "distinct (nodes (add_edge u v a G))"
    using wf2 by (simp add: nodes_add_edge wf_graph_def)
  have k: "map fst (adj (add_edge u v a G)) = nodes (add_edge u v a G)"
    using assms by (simp add: adj_keys_add_edge wf_graph_def)
  have n: "\<forall>nbrs \<in> snd ` set (adj (add_edge u v a G)). distinct (map fst nbrs)"
    using wf2 unfolding wf_graph_def add_edge_def Let_def set_adj_def
    by (auto dest!: set_map_entry_cases intro!: distinct_update) (force+)?
  have s: "\<forall>x y. edge_data (add_edge u v a G) x y = edge_data (add_edge u v a G) y x"
    using assms by (auto simp: edge_data_add_edge wf_graph_def)
  from d k n s show ?thesis by (simp add: wf_graph_def)
qed

lemma wf_empty: "wf_graph empty_graph"
  by (simp add: wf_graph_def empty_graph_def nodes_def edge_data_def)

lemma edges_from_fst: "e \<in> set (edges_from A seen) \<Longrightarrow> fst e \<in> fst ` set A \<and> fst (snd e) \<notin> set seen"
  by (induction A seen rule: edges_from.induct) force+

lemma edges_from_mem:
  "distinct (map fst A) \<Longrightarrow>
   (x, y, a) \<in> set (edges_from A seen) \<longleftrightarrow>
     (\<exists>nbrs. (x, nbrs) \<in> set A \<and> (y, a) \<in> set nbrs \<and> y \<notin> set seen \<and> y \<notin> before A x)"
proof (induction A seen rule: edges_from.induct)
  case (1 seen)
  then show ?case by simp
next
  case (2 n nbrs rest seen)
  have d: "distinct (map fst rest)" and nn: "n \<notin> fst ` set rest" using "2.prems" by auto
  have ih: "(x, y, a) \<in> set (edges_from rest (n # seen)) \<longleftrightarrow>
     (\<exists>nbrs. (x, nbrs) \<in> set rest \<and> (y, a) \<in> set nbrs \<and> y \<notin> set (n # seen) \<and> y \<notin> before rest x)"
    using "2.IH"[OF d] .
  show ?case
  proof (cases "x = n")
    case True
    have "(n, y, a) \<notin> set (edges_from rest (n # seen))"
      using edges_from_fst[of "(n, y, a)" rest "n # seen"] nn by auto
    moreover have "\<And>nb. (n, nb) \<notin> set rest" using nn by force
    ultimately show ?thesis using True by auto
  next
    case False
    then show ?thesis by (auto simp: ih)
  qed
qed

lemma before_antisym: "y \<in> before A x \<Longrightarrow> x \<notin> before A y"
  by (induction A) (auto split: if_splits)

lemma before_keys: "y \<in> before A x \<Longrightarrow> y \<in> fst ` set A"
  by (induction A) (auto split: if_splits)

lemma wf_edge_data_iff:
  assumes "wf_graph G"
  shows "edge_data G x y = Some a \<longleftrightarrow> (\<exists>nbrs. (x, nbrs) \<in> set (adj G) \<and> (y, a) \<in> set nbrs)"
proof -
  have d: "distinct (map fst (adj G))" using assms by (simp add: wf_graph_def)
  have dn: "\<And>nbrs. (x, nbrs) \<in> set (adj G) \<Longrightarrow> distinct (map fst nbrs)"
    using assms by (force simp: wf_graph_def)
  show ?thesis
  proof
    assume "edge_data G x y = Some a"
    then obtain nbrs where "map_of (adj G) x = Some nbrs" "map_of nbrs y = Some a"
      by (auto simp: edge_data_def split: option.splits)
    then show "\<exists>nbrs. (x, nbrs) \<in> set (adj G) \<and> (y, a) \<in> set nbrs"
      by (meson map_of_SomeD)
  next
    assume "\<exists>nbrs. (x, nbrs) \<in> set (adj G) \<and> (y, a) \<in> set nbrs"
    then obtain nbrs where n: "(x, nbrs) \<in> set (adj G)" "(y, a) \<in> set nbrs" by blast
    from n(1) d have "map_of (adj G) x = Some nbrs" by simp
    moreover from n dn have "map_of nbrs y = Some a" by simp
    ultimately show "edge_data G x y = Some a" by (simp add: edge_data_def)
  qed
qed

lemma edges_mem:
  assumes "wf_graph G"
  shows "(x, y, a) \<in> set (edges G) \<longleftrightarrow> edge_data G x y = Some a \<and> y \<notin> before (adj G) x"
proof -
  have d: "distinct (map fst (adj G))" using assms by (simp add: wf_graph_def)
  show ?thesis
    unfolding edges_def edges_from_mem[OF d] wf_edge_data_iff[OF assms] by auto
qed

lemma edge_data_in_edges:
  assumes "wf_graph G" "edge_data G x y = Some a"
  shows "(x, y, a) \<in> set (edges G) \<or> (y, x, a) \<in> set (edges G)"
proof (cases "y \<in> before (adj G) x")
  case False
  with assms show ?thesis by (simp add: edges_mem)
next
  case True
  then have "x \<notin> before (adj G) y" using before_antisym by metis
  moreover have "edge_data G y x = Some a" using assms by (simp add: wf_graph_def)
  ultimately show ?thesis using assms(1) by (simp add: edges_mem)
qed

lemma upair_row_map:
  "map upair (map (\<lambda>(nbr, dd). (n, nbr, dd)) xs) = map (\<lambda>k. {n, k}) (map fst xs)"
  by (induction xs) (simp_all add: upair_def case_prod_beta)

lemma distinct_upair_row:
  assumes "distinct (map fst nbrs)"
  shows "distinct (map upair (map (\<lambda>(nbr, dd). (n, nbr, dd)) (filter P nbrs)))"
proof -
  have a: "distinct (map fst (filter P nbrs))" using assms by (rule distinct_map_filter)
  have b: "inj_on (\<lambda>k. {n, k}) A" for A :: "string set"
    by (rule inj_onI) (auto simp: doubleton_eq_iff)
  show ?thesis unfolding upair_row_map by (intro iffD2[OF distinct_map] conjI a b)
qed

lemma distinct_upair_edges_from:
  "distinct (map fst A) \<Longrightarrow> (\<And>n nbrs. (n, nbrs) \<in> set A \<Longrightarrow> distinct (map fst nbrs)) \<Longrightarrow>
   distinct (map upair (edges_from A seen))"
proof (induction A seen rule: edges_from.induct)
  case (1 seen)
  then show ?case by simp
next
  case (2 n nbrs rest seen)
  let ?A1 = "map (\<lambda>(nbr, dd). (n, nbr, dd)) (filter (\<lambda>(nbr, dd). nbr \<notin> set seen) nbrs)"
  let ?A2 = "edges_from rest (n # seen)"
  have d: "distinct (map fst rest)" using "2.prems"(1) by simp
  have p2: "distinct (map fst ns)" if "(m, ns) \<in> set rest" for m ns
    by (rule "2.prems"(2)[of m ns]) (use that in simp)
  have ih: "distinct (map upair ?A2)"
    by (rule "2.IH"[OF d p2])
  have "distinct (map fst nbrs)" by (rule "2.prems"(2)[of n]) simp
  then have row: "distinct (map upair ?A1)" by (rule distinct_upair_row)
  have nn: "n \<notin> fst ` set rest" using "2.prems"(1) by simp
  have disj: "n \<notin> upair e" if "e \<in> set ?A2" for e
  proof -
    from edges_from_fst[OF that] nn have "fst e \<noteq> n" "fst (snd e) \<noteq> n" by auto
    then show ?thesis by (simp add: upair_def)
  qed
  have a1: "n \<in> upair e" if "e \<in> set ?A1" for e
    using that by (auto simp: upair_def)
  have dj: "upair ` set ?A1 \<inter> upair ` set ?A2 = {}"
  proof (rule ccontr)
    assume "\<not> ?thesis"
    then obtain e1 e2 where e: "e1 \<in> set ?A1" "e2 \<in> set ?A2" "upair e1 = upair e2" by blast
    from a1[OF e(1)] disj[OF e(2)] e(3) show False by simp
  qed
  have dj': "set (map upair ?A1) \<inter> set (map upair ?A2) = {}"
    using dj unfolding set_map .
  have "distinct (map upair (?A1 @ ?A2))"
    unfolding map_append distinct_append by (intro conjI ih row dj')
  then show ?case by (simp only: edges_from.simps)
qed

lemma distinct_upair_edges: "wf_graph G \<Longrightarrow> distinct (map upair (edges G))"
  unfolding edges_def by (rule distinct_upair_edges_from) (auto simp: wf_graph_def)

lemma nodes_set_node_attrs: "nodes (set_node_attrs n la lo st G) = nodes G"
  by (simp add: set_node_attrs_def nodes_def keys_map_entry)

lemma adj_set_node_attrs: "adj (set_node_attrs n la lo st G) = adj G"
  by (simp add: set_node_attrs_def)

lemma edge_data_set_node_attrs: "edge_data (set_node_attrs n la lo st G) x y = edge_data G x y"
  by (simp add: edge_data_def adj_set_node_attrs)

lemma wf_set_node_attrs: "wf_graph G \<Longrightarrow> wf_graph (set_node_attrs n la lo st G)"
  by (simp add: wf_graph_def nodes_set_node_attrs adj_set_node_attrs edge_data_set_node_attrs)

lemma add_row_Inr:
  assumes "add_row cols G r = Inr G'"
  shows "G' = set_node_attrs (Destination r) (Destination_Latitude r)
                 (Destination_Longitude r) (Destination_State r)
              (set_node_attrs (Source r) (Source_Latitude r)
                 (Source_Longitude r) (Source_State r)
              (add_edge (Source r) (Destination r) (row_edge_attr r) G))"
  using assms unfolding add_row_unfold row_edge_attr_def by (simp split: if_splits)

lemma wf_add_row:
  assumes "wf_graph G" and "add_row cols G r = Inr G'"
  shows "wf_graph G'"
  unfolding add_row_Inr[OF assms(2)] using assms(1)
  by (simp add: wf_set_node_attrs wf_add_edge)

lemma edge_data_add_row:
  assumes "wf_graph G" and "add_row cols G r = Inr G'"
  shows "edge_data G' x y = (if same_pair r x y then Some (row_edge_attr r) else edge_data G x y)"
  unfolding add_row_Inr[OF assms(2)] using assms(1)
  by (simp add: edge_data_set_node_attrs edge_data_add_edge same_pair_def)

lemma nodes_add_row:
  assumes "add_row cols G r = Inr G'"
  shows "set (nodes G') = insert (Source r) (insert (Destination r) (set (nodes G)))"
  unfolding add_row_Inr[OF assms]
  by (simp add: nodes_set_node_attrs set_nodes_add_edge)

lemma add_rows_Cons_Inr:
  assumes "add_rows cols G (r # rs) = Inr G'"
  obtains G1 where "add_row cols G r = Inr G1" "add_rows cols G1 rs = Inr G'"
  using assms by (cases "add_row cols G r") simp_all

lemma wf_add_rows: "wf_graph G \<Longrightarrow> add_rows cols G rs = Inr G' \<Longrightarrow> wf_graph G'"
proof (induction rs arbitrary: G)
  case Nil
  then show ?case by simp
next
  case (Cons r rs)
  from Cons.prems(2) obtain G1 where 1: "add_row cols G r = Inr G1" "add_rows cols G1 rs = Inr G'"
    by (rule add_rows_Cons_Inr)
  from wf_add_row[OF Cons.prems(1) 1(1)] 1(2) show ?case by (rule Cons.IH)
qed

lemma wf_load_graph: "load_graph p df = Inr G \<Longrightarrow> wf_graph G"
  by (cases df) (auto simp: load_graph_def intro: wf_add_rows[OF wf_empty])

lemma edge_data_add_rows_other:
  "wf_graph G \<Longrightarrow> add_rows cols G rs = Inr G' \<Longrightarrow> \<forall>r \<in> set rs. \<not> same_pair r x y \<Longrightarrow>
   edge_data G' x y = edge_data G x y"
proof (induction rs arbitrary: G)
  case Nil
  then show ?case by simp
next
  case (Cons r rs)
  from Cons.prems(2) obtain G1 where 1: "add_row cols G r = Inr G1" "add_rows cols G1 rs = Inr G'"
    by (rule add_rows_Cons_Inr)
  have "edge_data G' x y = edge_data G1 x y"
    using wf_add_row[OF Cons.prems(1) 1(1)] 1(2) Cons.prems(3) by (intro Cons.IH) simp_all
  also have "\<dots> = edge_data G x y"
    using Cons.prems(3) by (simp add: edge_data_add_row[OF Cons.prems(1) 1(1)])
  finally show ?case .
qed

lemma add_rows_append:
  "add_rows cols G (rs1 @ rs2) =
     (case add_rows cols G rs1 of Inl e \<Rightarrow> Inl e | Inr G1 \<Rightarrow> add_rows cols G1 rs2)"
  by (induction rs1 arbitrary: G) (simp_all split: sum.splits)






section \<open>The claims\<close>

subsection \<open>C5\<close>




subsection \<open>C7\<close>

text \<open>
  Claim C7, as amended. For every node name \<open>N\<close> of the graph and every input that
  differs from \<open>N\<close> only in letter case, when no node that comes before \<open>N\<close> in the
  order of \<^verbatim>\<open>G.nodes\<close> has the lower-cased form of \<open>N\<close>, the first loop of
  \<^verbatim>\<open>get_real_node_name\<close> (the exact case-insensitive match) finds \<open>N\<close>, and
  \<^verbatim>\<open>get_real_node_name\<close> returns \<open>N\<close> whatever the fuzzy matcher would answer.
\<close>

theorem c7_case_insensitive_exact_match:
  assumes "nodes G = pre @ N # post"
    and "\<forall>M \<in> set pre. lower M \<noteq> lower N"
    and "lower user_input = lower N"
  shows "exact_match lower G user_input = Some N
         \<and> get_real_node_name lower close G user_input = Some N"
proof -
  have "List.find (\<lambda>n. lower n = lower user_input) (pre @ N # post) = Some N"
    using assms(2,3) by (intro find_first) simp_all
  then have "exact_match lower G user_input = Some N"
    by (simp add: exact_match_def assms(1))
  then show ?thesis by (simp add: get_real_node_name_def)
qed

theorem c7_case_insensitive_exact_match_witness:
  "nodes (add_edge ''Abc'' ''abc'' \<lparr>Distance = 7, Risk = 1, Weight = 57\<rparr>
            (add_edge ''Xyz'' ''Abc'' \<lparr>Distance = 3, Risk = 2, Weight = 103\<rparr> (empty_graph :: int graph)))
     = [''Xyz''] @ ''Abc'' # [''abc'']
   \<and> ascii_lower ''Xyz'' \<noteq> ascii_lower ''Abc''
   \<and> ascii_lower ''ABC'' = ascii_lower ''Abc''
   \<and> exact_match ascii_lower
        (add_edge ''Abc'' ''abc'' \<lparr>Distance = 7, Risk = 1, Weight = 57\<rparr>
            (add_edge ''Xyz'' ''Abc'' \<lparr>Distance = 3, Risk = 2, Weight = 103\<rparr> (empty_graph :: int graph)))
        ''ABC'' = Some ''Abc''
   \<and> get_real_node_name ascii_lower no_close
        (add_edge ''Abc'' ''abc'' \<lparr>Distance = 7, Risk = 1, Weight = 57\<rparr>
            (add_edge ''Xyz'' ''Abc'' \<lparr>Distance = 3, Risk = 2, Weight = 103\<rparr> (empty_graph :: int graph)))
        ''ABC'' = Some ''Abc''"
proof -
  let ?G = "add_edge ''Abc'' ''abc'' \<lparr>Distance = 7, Risk = 1, Weight = 57\<rparr>
            (add_edge ''Xyz'' ''Abc'' \<lparr>Distance = 3, Risk = 2, Weight = 103\<rparr> (empty_graph :: int graph))"
  have a: "nodes ?G = [''Xyz''] @ ''Abc'' # [''abc'']"
    by (simp add: graph_defs)
  have b: "\<forall>M \<in> set [''Xyz'']. ascii_lower M \<noteq> ascii_lower ''Abc''"
    by (simp add: ascii_lower_simps ascii_lower_char_def)
  have c: "ascii_lower ''ABC'' = ascii_lower ''Abc''"
    by (simp add: ascii_lower_simps ascii_lower_char_def)
  from c7_case_insensitive_exact_match[OF a b c, of no_close] a b c show ?thesis by simp
qed

text \<open>Without the amendment the statement fails: in the graph with the nodes \<open>Abc\<close> and
  \<open>abc\<close>, in this order, the input \<open>ABC\<close> differs from the node \<open>abc\<close> only in case,
  and resolves to \<open>Abc\<close>.\<close>

theorem c7_counterexample:
  "''abc'' \<in> set (nodes case_graph) \<and> ascii_lower ''ABC'' = ascii_lower ''abc''
   \<and> get_real_node_name ascii_lower no_close case_graph ''ABC'' = Some ''Abc''
   \<and> get_real_node_name ascii_lower no_close case_graph ''ABC'' \<noteq> Some ''abc''"
  by (simp add: resolve_defs)

subsection \<open>C8\<close>

text \<open>
  Claim C8, as amended. For every node name \<open>N\<close> of the graph such that no node that
  comes before \<open>N\<close> in the order of \<^verbatim>\<open>G.nodes\<close> has the lower-cased form of \<open>N\<close>,
  \<^verbatim>\<open>get_real_node_name(G, N)\<close> returns \<open>N\<close> itself.
\<close>

theorem c8_idempotent:
  assumes "nodes G = pre @ N # post"
    and "\<forall>M \<in> set pre. lower M \<noteq> lower N"
  shows "get_real_node_name lower close G N = Some N"
proof -
  have "List.find (\<lambda>n. lower n = lower N) (pre @ N # post) = Some N"
    using assms(2) by (intro find_first) simp_all
  then have "exact_match lower G N = Some N"
    by (simp add: exact_match_def assms(1))
  then show ?thesis by (simp add: get_real_node_name_def)
qed

theorem c8_idempotent_witness:
  "nodes case_graph = [] @ ''Abc'' # [''abc'']
   \<and> get_real_node_name ascii_lower no_close case_graph ''Abc'' = Some ''Abc''"
proof -
  have a: "nodes case_graph = [] @ ''Abc'' # [''abc'']"
    by (simp add: case_graph_def nodes_def)
  have b: "\<forall>M \<in> set []. ascii_lower M \<noteq> ascii_lower ''Abc''" by simp
  from c8_idempotent[OF a b, of no_close] a show ?thesis by simp
qed

text \<open>Without the amendment the statement fails: in the graph loaded from the single row
  \<open>Abc\<close>, \<open>abc\<close>, the node name \<open>abc\<close> resolves to \<open>Abc\<close>.\<close>

theorem c8_counterexample:
  "load_graph ''data.csv'' (DataFrame required_columns [mk_row ''Abc'' ''abc'' 7 1]) = Inr case_graph
   \<and> ''abc'' \<in> set (nodes case_graph)
   \<and> get_real_node_name ascii_lower no_close case_graph ''abc'' = Some ''Abc''
   \<and> get_real_node_name ascii_lower no_close case_graph ''abc'' \<noteq> Some ''abc''"
  by (simp add: load_case_graph) (simp add: resolve_defs)

subsection \<open>C9\<close>

text \<open>
  Claim C9, as amended. For every query whose two parameters are present and non-empty and
  whose destination fails name resolution, \<^verbatim>\<open>get_corridor\<close> answers status 404 with the
  body \<^verbatim>\<open>{"error": "Sanctuary not found. Check spelling."}\<close>.
\<close>

theorem c9_unknown_destination:
  assumes "src_input = Some s" and "s \<noteq> []" and "dst_input = Some d" and "d \<noteq> []"
    and "get_real_node_name lower close G d = None"
  shows "get_corridor lower close G src_input dst_input
           = Some (Inr (404, Failure ''Sanctuary not found. Check spelling.''))"
  using assms by (simp add: get_corridor_def py_not_def Let_def)

theorem c9_unknown_destination_witness:
  "''Abc'' \<noteq> [] \<and> ''Nowhere'' \<noteq> []
   \<and> get_real_node_name ascii_lower no_close case_graph ''Nowhere'' = None
   \<and> get_corridor ascii_lower no_close case_graph (Some ''Abc'') (Some ''Nowhere'')
           = Some (Inr (404, Failure ''Sanctuary not found. Check spelling.''))"
proof -
  have r: "get_real_node_name ascii_lower no_close case_graph ''Nowhere'' = None"
    by (simp add: resolve_defs)
  have a: "''Abc'' \<noteq> []" and b: "''Nowhere'' \<noteq> []" by simp_all
  from c9_unknown_destination[OF refl a refl b r] r show ?thesis by simp
qed

text \<open>Without the amendment the statement fails: a query with no source parameter and an
  unknown destination is answered with status 400.\<close>

theorem c9_counterexample:
  "get_real_node_name ascii_lower no_close case_graph ''Nowhere'' = None
   \<and> get_corridor ascii_lower no_close case_graph None (Some ''Nowhere'')
       = Some (Inr (400, Failure ''Missing source or destination''))"
  by (simp add: get_corridor_def py_not_def resolve_defs)

subsection \<open>C1\<close>

text \<open>
  Claim C1. For the dataset of exactly the three rows \<open>A\<close>, \<open>B\<close> (distance 10, risk 1);
  \<open>B\<close>, \<open>C\<close> (distance 10, risk 1); \<open>A\<close>, \<open>C\<close> (distance 5, risk 4), the graph
  that \<^verbatim>\<open>kruskal_mst\<close> returns has the edges \<open>A\<close>, \<open>B\<close> and \<open>B\<close>, \<open>C\<close> and no
  edge between \<open>A\<close> and \<open>C\<close>, and the query with source \<^verbatim>\<open>a\<close> and destination
  \<^verbatim>\<open>c\<close> is answered with status 200, the path from \<open>A\<close> to \<open>B\<close> and from \<open>B\<close> to
  \<open>C\<close>, total distance 20 and total risk 2.
\<close>

theorem c1_three_row_example:
  fixes r1 :: "'c row"
  shows "load_graph csv_path (DataFrame required_columns (abc_rows r1 r2 r3))
           = Inr (abc_graph r1 r2 r3)
   \<and> kruskal_mst (abc_graph r1 r2 r3) = Some (Inr abc_mst)
   \<and> edges (abc_mst :: 'c graph) =
        [(''A'', ''B'', \<lparr>Distance = 10, Risk = 1, Weight = 60\<rparr>),
         (''B'', ''C'', \<lparr>Distance = 10, Risk = 1, Weight = 60\<rparr>)]
   \<and> edge_data (abc_mst :: 'c graph) ''A'' ''C'' = None
   \<and> get_corridor ascii_lower close (abc_graph r1 r2 r3) (Some ''a'') (Some ''c'') =
     Some (Inr (200, Success
       \<lparr>path = [\<lparr>source = ''A'', destination = ''B'', distance = 10, risk = 1,
           source_state = Source_State r3, destination_state = Source_State r2,
           source_full = ''A ('' @ Source_State r3 @ '')'',
           destination_full = ''B ('' @ Source_State r2 @ '')''\<rparr>,
          \<lparr>source = ''B'', destination = ''C'', distance = 10, risk = 1,
           source_state = Source_State r2, destination_state = Destination_State r3,
           source_full = ''B ('' @ Source_State r2 @ '')'',
           destination_full = ''C ('' @ Destination_State r3 @ '')''\<rparr>],
        node_map = [(''A'', Source_Latitude r3, Source_Longitude r3, Source_State r3),
          (''B'', Source_Latitude r2, Source_Longitude r2, Source_State r2),
          (''C'', Destination_Latitude r3, Destination_Longitude r3, Destination_State r3)],
        total_distance = 20, total_risk = 2\<rparr>))"
proof -
  have "edge_data (abc_mst :: 'c graph) ''A'' ''C'' = None"
    by (simp add: edge_data_def abc_mst_def)
  moreover have "get_corridor ascii_lower close (abc_graph r1 r2 r3) (Some ''a'') (Some ''c'') =
     Some (Inr (200, Success
       \<lparr>path = [\<lparr>source = ''A'', destination = ''B'', distance = 10, risk = 1,
           source_state = Source_State r3, destination_state = Source_State r2,
           source_full = ''A ('' @ Source_State r3 @ '')'',
           destination_full = ''B ('' @ Source_State r2 @ '')''\<rparr>,
          \<lparr>source = ''B'', destination = ''C'', distance = 10, risk = 1,
           source_state = Source_State r2, destination_state = Destination_State r3,
           source_full = ''B ('' @ Source_State r2 @ '')'',
           destination_full = ''C ('' @ Destination_State r3 @ '')''\<rparr>],
        node_map = [(''A'', Source_Latitude r3, Source_Longitude r3, Source_State r3),
          (''B'', Source_Latitude r2, Source_Longitude r2, Source_State r2),
          (''C'', Destination_Latitude r3, Destination_Longitude r3, Destination_State r3)],
        total_distance = 20, total_risk = 2\<rparr>))"
    by (simp add: get_corridor_def py_not_def resolve_abc find_corridor_def kruskal_abc bind_res_def
        nodes_mst path_abc assemble_def steps_abc nodes_info_abc bind_err_def
      del: make_steps.simps make_nodes.simps)
  ultimately show ?thesis
    using load_abc[of csv_path r1 r2 r3] kruskal_abc[of r1 r2 r3] edges_mst by (intro conjI)
qed

theorem c1_three_row_example_witness:
  "total_distance (case get_corridor ascii_lower no_close
        (abc_graph (mk_row ''A'' ''B'' 10 1) (mk_row ''B'' ''C'' 10 1) (mk_row ''A'' ''C'' 5 4))
        (Some ''a'') (Some ''c'') of Some (Inr (st, Success c)) \<Rightarrow> c) = 20
   \<and> abc_rows (mk_row ''A'' ''B'' 10 1) (mk_row ''B'' ''C'' 10 1) (mk_row ''A'' ''C'' 5 4)
       = [mk_row ''A'' ''B'' 10 1, mk_row ''B'' ''C'' 10 1, mk_row ''A'' ''C'' 5 4]"
  using c1_three_row_example[of "''data.csv''" "mk_row ''A'' ''B'' 10 1" "mk_row ''B'' ''C'' 10 1"
      "mk_row ''A'' ''C'' 5 4" no_close]
  by (simp add: abc_rows_def mk_row_def)

subsection \<open>C3\<close>



subsection \<open>C6\<close>

text \<open>
  Claim C6. When a row of the dataset is the last one that joins its two nodes (in either
  direction), whatever rows come before it, the graph that \<^verbatim>\<open>load_graph\<close> returns stores
  between these two nodes the distance, the risk and the weight of this row, this edge is
  in the list of the edges of the graph, and no two edges of that list have the same set of
  ends.
\<close>

theorem c6_last_write_wins:
  assumes "load_graph csv_path (DataFrame cols (earlier @ r # later)) = Inr G"
      and "\<forall>r' \<in> set later. \<not> same_pair r' (Source r) (Destination r)"
  shows "edge_data G (Source r) (Destination r) = Some (row_edge_attr r)
       \<and> edge_data G (Destination r) (Source r) = Some (row_edge_attr r)
       \<and> ((Source r, Destination r, row_edge_attr r) \<in> set (edges G)
           \<or> (Destination r, Source r, row_edge_attr r) \<in> set (edges G))
       \<and> distinct (map upair (edges G))"
proof -
  have wf: "wf_graph G" by (rule wf_load_graph[OF assms(1)])
  from assms(1) have "add_rows cols empty_graph (earlier @ r # later) = Inr G"
    by (simp add: load_graph_def)
  then obtain G1 where 1: "add_rows cols empty_graph earlier = Inr G1"
      and 2: "add_rows cols G1 (r # later) = Inr G"
    by (auto simp: add_rows_append split: sum.splits)
  from 2 obtain G2 where 3: "add_row cols G1 r = Inr G2" and 4: "add_rows cols G2 later = Inr G"
    by (rule add_rows_Cons_Inr)
  have wf1: "wf_graph G1" by (rule wf_add_rows[OF wf_empty 1])
  have wf2: "wf_graph G2" by (rule wf_add_row[OF wf1 3])
  have "edge_data G (Source r) (Destination r) = edge_data G2 (Source r) (Destination r)"
    by (rule edge_data_add_rows_other[OF wf2 4 assms(2)])
  also have "\<dots> = Some (row_edge_attr r)"
    by (simp add: edge_data_add_row[OF wf1 3] same_pair_def)
  finally have a: "edge_data G (Source r) (Destination r) = Some (row_edge_attr r)" .
  then have b: "edge_data G (Destination r) (Source r) = Some (row_edge_attr r)"
    using wf by (simp add: wf_graph_def)
  from a b edge_data_in_edges[OF wf a] distinct_upair_edges[OF wf] show ?thesis by simp
qed

theorem c6_last_write_wins_witness:
  "\<exists>G :: int graph.
     load_graph ''data.csv''
       (DataFrame required_columns
          ([mk_row ''A'' ''B'' 10 1] @ mk_row ''B'' ''A'' 7 2 # [mk_row ''B'' ''C'' 3 3])) = Inr G
     \<and> \<not> same_pair (mk_row ''B'' ''C'' 3 3) ''B'' ''A''
     \<and> edge_data G ''B'' ''A'' = Some \<lparr>Distance = 7, Risk = 2, Weight = 107\<rparr>
     \<and> edge_data G ''A'' ''B'' = Some \<lparr>Distance = 7, Risk = 2, Weight = 107\<rparr>
     \<and> edges G = [(''A'', ''B'', \<lparr>Distance = 7, Risk = 2, Weight = 107\<rparr>),
                  (''B'', ''C'', \<lparr>Distance = 3, Risk = 3, Weight = 153\<rparr>)]"
proof -
  let ?goa = "\<lparr>latitude = Some (0 :: int), longitude = Some (0 :: int), state = Some ''Goa''\<rparr>"
  let ?G = "\<lparr>node = [(''A'', ?goa), (''B'', ?goa), (''C'', ?goa)],
             adj = [(''A'', [(''B'', \<lparr>Distance = 7, Risk = 2, Weight = 107\<rparr>)]),
                    (''B'', [(''A'', \<lparr>Distance = 7, Risk = 2, Weight = 107\<rparr>),
                            (''C'', \<lparr>Distance = 3, Risk = 3, Weight = 153\<rparr>)]),
                    (''C'', [(''B'', \<lparr>Distance = 3, Risk = 3, Weight = 153\<rparr>)])]\<rparr>"
  have l: "load_graph ''data.csv''
       (DataFrame required_columns
          ([mk_row ''A'' ''B'' 10 1] @ mk_row ''B'' ''A'' 7 2 # [mk_row ''B'' ''C'' 3 3])) = Inr ?G"
    by (simp add: load_graph_def add_row_ok mk_row_def graph_defs)
  have n: "\<forall>r' \<in> set [mk_row ''B'' ''C'' 3 3].
             \<not> same_pair r' (Source (mk_row ''B'' ''A'' 7 2)) (Destination (mk_row ''B'' ''A'' 7 2))"
    by (simp add: same_pair_def mk_row_def)
  have e: "edges ?G = [(''A'', ''B'', \<lparr>Distance = 7, Risk = 2, Weight = 107\<rparr>),
                  (''B'', ''C'', \<lparr>Distance = 3, Risk = 3, Weight = 153\<rparr>)]"
    by (simp add: edges_def)
  have m: "\<not> same_pair (mk_row ''B'' ''C'' 3 3) ''B'' ''A''"
    by (simp add: same_pair_def mk_row_def)
  from c6_last_write_wins[OF l n]
  have "edge_data ?G ''B'' ''A'' = Some \<lparr>Distance = 7, Risk = 2, Weight = 107\<rparr>"
    "edge_data ?G ''A'' ''B'' = Some \<lparr>Distance = 7, Risk = 2, Weight = 107\<rparr>"
    by (simp_all add: mk_row_def row_edge_attr_def)
  with l m e show ?thesis by blast
qed

(*MARK:CLAIMS*)

end
